theory Spec2Isabelle
  imports Complex_Main
begin

section \<open>The AMR scheduling core of \<^verbatim>\<open>api/index.py\<close>\<close>

text \<open>
  The three functions \<^verbatim>\<open>calculate_retention\<close>, \<^verbatim>\<open>schedule_next_review\<close> and
  \<^verbatim>\<open>update_card_on_review\<close> are embedded as HOL functions.

  Conventions of the embedding:
  \<^item> a Python \<^verbatim>\<open>float\<close> is a \<open>real\<close>: arithmetic does not round, and there is no infinity
    and no NaN; the one place where the range of a float shows in the code, the
    \<^verbatim>\<open>OverflowError\<close> of \<^verbatim>\<open>math.exp\<close>, is modelled; a Python \<^verbatim>\<open>int\<close> is an \<open>int\<close>;
  \<^item> a naive \<^verbatim>\<open>datetime\<close> is the number of microseconds since 0001-01-01T00:00:00 and a
    \<^verbatim>\<open>timedelta\<close> is a number of microseconds, both \<open>int\<close>; the library's rounding to whole
    microseconds and its two range checks, which raise \<^verbatim>\<open>OverflowError\<close>, are modelled;
  \<^item> the text form of a timestamp is a \<open>string\<close>; the two library conversions
    \<^verbatim>\<open>datetime.fromisoformat\<close> and \<^verbatim>\<open>datetime.isoformat\<close> are parameters of the model
    (record \<open>pylib\<close>), so that every theorem holds for whatever these conversions do;
  \<^item> \<^verbatim>\<open>datetime.utcnow()\<close> is an input: the functions that call it take the value it
    returns as their argument \<open>utcnow\<close>;
  \<^item> an exception is a value \<open>Inl e\<close>; the dictionary \<^verbatim>\<open>card_data\<close>, which the code
    mutates in place, is passed in and returned as the second component of the result,
    with whatever the call has written to it before it raised.
\<close>

subsection \<open>Configuration\<close>

definition RETENTION_TARGET :: real where
  "RETENTION_TARGET = 85 / 100"

definition MIN_INTERVAL_DAYS :: real where
  "MIN_INTERVAL_DAYS = 5 / 10"

definition BOX_COUNT :: int where
  "BOX_COUNT = 5"

definition QUALITY_MULTIPLIER :: "int \<rightharpoonup> real" where
  "QUALITY_MULTIPLIER =
     [5 \<mapsto> 130 / 100,
      4 \<mapsto> 115 / 100,
      3 \<mapsto> 105 / 100,
      2 \<mapsto> 85 / 100,
      1 \<mapsto> 6 / 10,
      0 \<mapsto> 45 / 100]"

subsection \<open>Errors, floats, time and text\<close>

datatype error = ValueError | TypeError | OverflowError

text \<open>
  \<^verbatim>\<open>math.exp\<close> raises \<^verbatim>\<open>OverflowError\<close> when the result is beyond the largest float,
  \<open>(2^53 - 1) * 2^971\<close> (the argument is then above 709.78).
\<close>

definition DBL_MAX :: real where
  "DBL_MAX = (2 ^ 53 - 1) * 2 ^ 971"

definition math_exp :: "real \<Rightarrow> error + real" where
  "math_exp x = (if exp x \<le> DBL_MAX then Inr (exp x) else Inl OverflowError)"

type_synonym datetime = int

type_synonym timedelta = int

text \<open>
  \<open>DATETIME_END\<close> is the first microsecond after \<^verbatim>\<open>datetime.max\<close>, the last one of the
  year 9999 (day 3652059 of the calendar); a \<^verbatim>\<open>timedelta\<close> has at most
  \<open>MAX_DELTA_DAYS\<close> days.
\<close>

definition DATETIME_END :: int where
  "DATETIME_END = 3652059 * (86400 * 10 ^ 6)"

definition MAX_DELTA_DAYS :: int where
  "MAX_DELTA_DAYS = 999999999"

text \<open>Rounding to the nearest integer, a tie going to the even one.\<close>

definition round_half_even :: "real \<Rightarrow> int" where
  "round_half_even x =
     (let f = \<lfloor>x\<rfloor>;
          d = x - of_int f
      in if d < 1 / 2 then f
         else if 1 / 2 < d then f + 1
         else if even f then f
         else f + 1)"

text \<open>
  \<^verbatim>\<open>timedelta(days=d)\<close> for a float \<open>d\<close>: the number of microseconds, rounded, and the
  check of the number of days.
\<close>

definition timedelta_days :: "real \<Rightarrow> error + timedelta" where
  "timedelta_days d =
     (let us = round_half_even (d * (86400 * 10 ^ 6));
          days = us div (86400 * 10 ^ 6)
      in if - MAX_DELTA_DAYS \<le> days \<and> days \<le> MAX_DELTA_DAYS then Inr us
         else Inl OverflowError)"

text \<open>\<^verbatim>\<open>dt + td\<close>: the sum has to be a date of the years 1 to 9999.\<close>

definition datetime_add :: "datetime \<Rightarrow> timedelta \<Rightarrow> error + datetime" where
  "datetime_add dt td =
     (let r = dt + td
      in if 0 \<le> r \<and> r < DATETIME_END then Inr r else Inl OverflowError)"

definition total_seconds :: "timedelta \<Rightarrow> real" where
  "total_seconds td = of_int td / 10 ^ 6"

text \<open>
  What \<^verbatim>\<open>datetime.fromisoformat\<close> makes of a string: a naive datetime, a datetime with a
  zone offset, or no datetime at all (the call raises \<^verbatim>\<open>ValueError\<close>).
\<close>

datatype parsed = Naive datetime | Aware datetime | Malformed

record pylib =
  fromisoformat :: "string \<Rightarrow> parsed"
  isoformat :: "datetime \<Rightarrow> string"

subsection \<open>AMR logic functions\<close>

text \<open>
  \<^verbatim>\<open>calculate_retention(strength, last_review)\<close>. The test \<^verbatim>\<open>not last_review\<close> holds for
  \<^verbatim>\<open>None\<close> and for the empty string. Subtracting a datetime with a zone offset from the
  naive \<^verbatim>\<open>utcnow()\<close> raises \<^verbatim>\<open>TypeError\<close>.
\<close>

definition calculate_retention ::
  "pylib \<Rightarrow> datetime \<Rightarrow> real \<Rightarrow> string option \<Rightarrow> error + real" where
  "calculate_retention lib utcnow strength last_review =
     (case last_review of
        None \<Rightarrow> Inr 0
      | Some s \<Rightarrow>
          if s = [] then Inr 0
          else (case fromisoformat lib s of
                  Malformed \<Rightarrow> Inl ValueError
                | Aware _ \<Rightarrow> Inl TypeError
                | Naive last_dt \<Rightarrow>
                    let t_days = total_seconds (utcnow - last_dt) / 86400
                    in math_exp (- t_days / max (1 / 10 ^ 6) strength)))"

text \<open>
  \<^verbatim>\<open>schedule_next_review(strength, now)\<close>: \<open>schedule_next_dt\<close> is the local \<^verbatim>\<open>next_dt\<close>,
  the function itself returns its text form.
\<close>

definition schedule_next_dt :: "real \<Rightarrow> datetime \<Rightarrow> error + datetime" where
  "schedule_next_dt strength now =
     (let t_days = - strength * ln RETENTION_TARGET;
          t_days = max t_days MIN_INTERVAL_DAYS
      in case timedelta_days t_days of
           Inl e \<Rightarrow> Inl e
         | Inr td \<Rightarrow> datetime_add now td)"

definition schedule_next_review :: "pylib \<Rightarrow> real \<Rightarrow> datetime \<Rightarrow> error + string" where
  "schedule_next_review lib strength now =
     (case schedule_next_dt strength now of
        Inl e \<Rightarrow> Inl e
      | Inr next_dt \<Rightarrow> Inr (isoformat lib next_dt))"

subsection \<open>Card records\<close>

record history_entry =
  time :: string
  quality :: int
  old_strength :: real
  old_box :: int
  new_strength :: real
  new_box :: int

text \<open>
  The keys of \<^verbatim>\<open>card_data\<close> that the code reads or writes. \<^verbatim>\<open>strength\<close> and \<^verbatim>\<open>box\<close> are
  read with \<^verbatim>\<open>card_data[...]\<close> and are taken to be present, a float and an int. For
  \<^verbatim>\<open>last_review\<close> and \<^verbatim>\<open>next_review\<close>, \<open>None\<close> is Python's \<^verbatim>\<open>None\<close>. For \<^verbatim>\<open>history\<close>,
  \<open>None\<close> says that the key is not in the dictionary.
\<close>

record card_data =
  strength :: real
  box :: int
  last_review :: "string option"
  next_review :: "string option"
  history :: "history_entry list option"

text \<open>
  \<^verbatim>\<open>update_card_on_review(card_data, quality)\<close>. The result is the outcome of the call
  (the exception raised, or the dictionary returned) together with the dictionary as the
  call leaves it. When \<^verbatim>\<open>schedule_next_review\<close> raises, strength, box and last_review
  have been written, next_review and history have not.
\<close>

definition update_card_on_review ::
  "pylib \<Rightarrow> datetime \<Rightarrow> card_data \<Rightarrow> int \<Rightarrow> (error + card_data) \<times> card_data" where
  "update_card_on_review lib utcnow card_data = (\<lambda>quality.
     (if quality < 0 \<or> quality > 5 then (Inl ValueError, card_data)
      else
        let now = utcnow;
            mult = (case QUALITY_MULTIPLIER quality of Some m \<Rightarrow> m | None \<Rightarrow> 1);
            new_strength = max (1 / 10) (strength card_data * mult);
            new_strength = (if quality = 5 then new_strength + 2 / 10 else new_strength);
            new_box =
              (if quality \<ge> 4 then min BOX_COUNT (box card_data + 1)
               else if quality \<le> 2 then 1
               else box card_data);
            history_entry =
              \<lparr>time = isoformat lib now,
               quality = quality,
               old_strength = strength card_data,
               old_box = box card_data,
               new_strength = new_strength,
               new_box = new_box\<rparr>;
            card_data = card_data\<lparr>strength := new_strength\<rparr>;
            card_data = card_data\<lparr>box := new_box\<rparr>;
            card_data = card_data\<lparr>last_review := Some (isoformat lib now)\<rparr>
        in case schedule_next_review lib new_strength now of
             Inl e \<Rightarrow> (Inl e, card_data)
           | Inr scheduled \<Rightarrow>
               let card_data = card_data\<lparr>next_review := Some scheduled\<rparr>;
                   card_data =
                     (if history card_data = None then card_data\<lparr>history := Some []\<rparr>
                      else card_data);
                   card_data =
                     card_data\<lparr>history := Some (the (history card_data) @ [history_entry])\<rparr>
               in (Inr card_data, card_data)))"

text \<open>
  A series of reviews of one card, each with the clock reading of its call and its
  quality: the records after the calls, up to the first call that raises.
\<close>

fun review_trace :: "pylib \<Rightarrow> card_data \<Rightarrow> (datetime \<times> int) list \<Rightarrow> card_data list" where
  "review_trace lib c [] = []"
| "review_trace lib c ((utcnow, q) # rest) =
     (case update_card_on_review lib utcnow c q of
        (Inl e, _) \<Rightarrow> []
      | (Inr c', _) \<Rightarrow> c' # review_trace lib c' rest)"

subsection \<open>Example inputs\<close>

text \<open>
  One instance of the library conversions, on the few timestamps of the examples below,
  a fresh card and a series of two reviews, one at 2024-01-01T00:00:00 (microsecond
  63839664000000000) and one a day later.
\<close>

definition example_lib :: pylib where
  "example_lib =
     \<lparr>fromisoformat =
        (\<lambda>s. if s = ''2024-01-01T00:00:00'' then Naive 63839664000000000
             else if s = ''2024-01-02T00:00:00'' then Naive 63839750400000000
             else if s = ''2027-01-01T00:00:00'' then Naive 63934358400000000
             else if s = ''2024-01-02T00:00:00+00:00'' then Aware 63839750400000000
             else Malformed),
      isoformat =
        (\<lambda>d. if d = 0 then ''0001-01-01T00:00:00''
             else if d = 63839664000000000 then ''2024-01-01T00:00:00''
             else if d = 63839707200000000 then ''2024-01-01T12:00:00''
             else if d = 63839750400000000 then ''2024-01-02T00:00:00''
             else if d = 63839793600000000 then ''2024-01-02T12:00:00''
             else [])\<rparr>"

definition example_card :: card_data where
  "example_card =
     \<lparr>strength = 1, box = 1, last_review = None, next_review = None, history = None\<rparr>"

definition example_reviews :: "(datetime \<times> int) list" where
  "example_reviews = [(63839664000000000, 0), (63839750400000000, 5)]"

section \<open>Properties\<close>

subsection \<open>Rounding, logarithm and float range\<close>

lemma round_half_even_of_int: "round_half_even (of_int n) = n"
  by (simp add: round_half_even_def)

lemma round_half_even_ge:
  assumes "of_int n \<le> x"
  shows "n \<le> round_half_even x"
proof -
  from assms have "n \<le> \<lfloor>x\<rfloor>" by (simp add: le_floor_iff)
  then show ?thesis by (simp add: round_half_even_def Let_def)
qed

lemma round_half_even_eq_iff:
  assumes "of_int n \<le> x" "even n"
  shows "round_half_even x = n \<longleftrightarrow> x \<le> of_int n + 1 / 2"
proof (cases "x < of_int n + 1")
  case True
  with assms(1) have f: "\<lfloor>x\<rfloor> = n" by (simp add: floor_eq_iff)
  show ?thesis using assms(2) by (auto simp: round_half_even_def Let_def f)
next
  case False
  then have "n + 1 \<le> \<lfloor>x\<rfloor>" by (simp add: le_floor_iff)
  then have "n + 1 \<le> round_half_even x" by (simp add: round_half_even_def Let_def)
  with False show ?thesis by auto
qed

lemma ln_target_bounds:
  "- (1 / 5) < ln (85 / 100 :: real)" "ln (85 / 100 :: real) \<le> - (15 / 100)"
proof -
  have "exp (1 / 5 :: real) \<ge> 1 + 1 / 5"
    using exp_ge_add_one_self [of "1 / 5 :: real"] by simp
  then have "exp (1 / 5 :: real) > 100 / 85" by simp
  then have "ln (100 / 85 :: real) < 1 / 5"
    by (metis exp_gt_zero ln_exp ln_less_cancel_iff zero_less_divide_iff zero_less_numeral)
  moreover have "ln (85 / 100 :: real) = - ln (100 / 85)"
    by (simp add: ln_div)
  ultimately show "- (1 / 5) < ln (85 / 100 :: real)" by simp
  show "ln (85 / 100 :: real) \<le> - (15 / 100)"
    using ln_le_minus_one [of "85 / 100 :: real"] by simp
qed

lemma DBL_MAX_bounds: "3 \<le> DBL_MAX" "DBL_MAX < 2 ^ 1024"
proof -
  have "(1::real) \<le> 2 ^ 53 - 1" by simp
  moreover have "(3::real) \<le> 2 ^ 971"
  proof -
    have "(2::real) ^ 2 \<le> 2 ^ 971" by (intro power_increasing) simp_all
    then show ?thesis by simp
  qed
  ultimately have "(1::real) * 3 \<le> (2 ^ 53 - 1) * 2 ^ 971"
    by (intro mult_mono) simp_all
  then show "3 \<le> DBL_MAX" by (simp add: DBL_MAX_def)
  have "((2::real) ^ 53 - 1) * 2 ^ 971 < 2 ^ 53 * 2 ^ 971"
    by (intro mult_strict_right_mono) simp_all
  also have "\<dots> = 2 ^ 1024" by (simp add: power_add [symmetric])
  finally show "DBL_MAX < 2 ^ 1024" by (simp add: DBL_MAX_def)
qed

lemma math_exp_small:
  assumes "x \<le> 1"
  shows "math_exp x = Inr (exp x)"
proof -
  have "exp x \<le> exp (1::real)" using assms by simp
  also have "\<dots> \<le> 3" by (rule exp_le)
  also have "\<dots> \<le> DBL_MAX" by (rule DBL_MAX_bounds)
  finally show ?thesis by (simp add: math_exp_def)
qed

lemma math_exp_overflow: "math_exp 1096 = Inl OverflowError"
proof -
  have "(2::real) \<le> exp 1" using exp_ge_add_one_self [of "1::real"] by simp
  then have "(2::real) ^ 1096 \<le> exp 1 ^ 1096" by (intro power_mono) simp_all
  also have "\<dots> = exp (1096::real)" using exp_of_nat_mult [of 1096 "1::real"] by simp
  finally have "(2::real) ^ 1096 \<le> exp 1096" .
  moreover have "(2::real) ^ 1024 \<le> 2 ^ 1096" by (intro power_increasing) simp_all
  ultimately have "DBL_MAX < exp (1096::real)" using DBL_MAX_bounds(2) by linarith
  then show ?thesis by (simp add: math_exp_def)
qed

subsection \<open>When the scheduler returns and when it raises\<close>

lemma schedule_next_dt_eq:
  "schedule_next_dt s now =
     (let td = round_half_even (max (5 / 10) (- s * ln (85 / 100)) * (86400 * 10 ^ 6))
      in if td div (86400 * 10 ^ 6) \<le> 999999999 \<and> 0 \<le> now + td \<and> now + td < DATETIME_END
         then Inr (now + td) else Inl OverflowError)"
proof -
  have "(0::real) \<le> max (5 / 10) (- s * ln (85 / 100)) * (86400 * 10 ^ 6)" by simp
  then have "0 \<le> round_half_even (max (5 / 10) (- s * ln (85 / 100)) * (86400 * 10 ^ 6))"
    using round_half_even_ge [of 0] by simp
  then have "0 \<le>
      round_half_even (max (5 / 10) (- s * ln (85 / 100)) * (86400 * 10 ^ 6)) div (86400 * 10 ^ 6)"
    by (simp add: pos_imp_zdiv_nonneg_iff)
  then have "- 999999999 \<le>
      round_half_even (max (5 / 10) (- s * ln (85 / 100)) * (86400 * 10 ^ 6)) div (86400 * 10 ^ 6)"
    by linarith
  then show ?thesis
    by (simp add: schedule_next_dt_def timedelta_days_def datetime_add_def Let_def
        RETENTION_TARGET_def MIN_INTERVAL_DAYS_def MAX_DELTA_DAYS_def max.commute)
qed

lemma schedule_small:
  assumes "0 < s" "s \<le> 5 / 2" "0 \<le> now" "now + 43200000000 < DATETIME_END"
  shows "schedule_next_dt s now = Inr (now + 43200000000)"
proof -
  have "- ln (85 / 100 :: real) \<le> 1 / 5" using ln_target_bounds(1) by simp
  then have "s * (- ln (85 / 100)) \<le> s * (1 / 5)"
    using assms(1) by (intro mult_left_mono) simp_all
  also have "\<dots> \<le> 5 / 10" using assms(2) by simp
  finally have m: "max (5 / 10) (- s * ln (85 / 100)) = 5 / 10" by (simp add: max_def)
  have "round_half_even ((5 / 10) * (86400 * 10 ^ 6)) = 43200000000"
    using round_half_even_of_int [of 43200000000] by simp
  then show ?thesis using assms(3,4)
    unfolding schedule_next_dt_eq m by (simp add: Let_def)
qed

lemma schedule_next_review_small:
  assumes "0 < s" "s \<le> 5 / 2" "0 \<le> now" "now + 43200000000 < DATETIME_END"
  shows "schedule_next_review lib s now = Inr (isoformat lib (now + 43200000000))"
  by (simp add: schedule_next_review_def schedule_small [OF assms])

lemma schedule_large:
  assumes "100000000 \<le> s" "0 \<le> now"
  shows "schedule_next_dt s now = Inl OverflowError"
proof -
  have "(15 / 100 :: real) \<le> - ln (85 / 100)" using ln_target_bounds(2) by simp
  then have "100000000 * (15 / 100) \<le> s * (- ln (85 / 100))"
    using assms(1) by (intro mult_mono) simp_all
  then have "(15000000::real) \<le> max (5 / 10) (- s * ln (85 / 100))" by simp
  then have "(15000000::real) * (86400 * 10 ^ 6) \<le>
      max (5 / 10) (- s * ln (85 / 100)) * (86400 * 10 ^ 6)"
    by (intro mult_right_mono) simp_all
  then have "of_int 1296000000000000000 \<le>
      max (5 / 10) (- s * ln (85 / 100)) * (86400 * 10 ^ 6 :: real)"
    by simp
  then have "1296000000000000000 \<le>
      round_half_even (max (5 / 10) (- s * ln (85 / 100)) * (86400 * 10 ^ 6))"
    by (rule round_half_even_ge)
  then show ?thesis
    unfolding schedule_next_dt_eq using assms(2) by (simp add: Let_def DATETIME_END_def)
qed

lemma schedule_error:
  "schedule_next_review lib s now = Inl e \<Longrightarrow> e = OverflowError"
  by (auto simp: schedule_next_review_def schedule_next_dt_def timedelta_days_def
      datetime_add_def Let_def split: sum.splits if_splits)

subsection \<open>The paths of \<^verbatim>\<open>update_card_on_review\<close>\<close>

lemma update_rejected:
  "q < 0 \<or> q > 5 \<Longrightarrow> update_card_on_review lib utcnow c q = (Inl ValueError, c)"
  by (simp add: update_card_on_review_def)

lemma quality_cases:
  fixes q :: int
  assumes "0 \<le> q" "q \<le> 5"
  shows "q = 0 \<or> q = 1 \<or> q = 2 \<or> q = 3 \<or> q = 4 \<or> q = 5"
  using assms by arith

lemma mult_table:
  "QUALITY_MULTIPLIER 5 = Some (130 / 100)" "QUALITY_MULTIPLIER 4 = Some (115 / 100)"
  "QUALITY_MULTIPLIER 3 = Some (105 / 100)" "QUALITY_MULTIPLIER 2 = Some (85 / 100)"
  "QUALITY_MULTIPLIER 1 = Some (6 / 10)" "QUALITY_MULTIPLIER 0 = Some (45 / 100)"
  by (simp_all add: QUALITY_MULTIPLIER_def)

lemma update_accepted:
  assumes "0 \<le> q" "q \<le> 5"
  shows "update_card_on_review lib utcnow c q =
    (let ns = max (1 / 10) (strength c * the (QUALITY_MULTIPLIER q)) +
              (if q = 5 then 2 / 10 else 0);
         nb = (if 4 \<le> q then min 5 (box c + 1) else if q \<le> 2 then 1 else box c);
         c1 = c\<lparr>strength := ns, box := nb, last_review := Some (isoformat lib utcnow)\<rparr>
     in case schedule_next_review lib ns utcnow of
          Inl e \<Rightarrow> (Inl e, c1)
        | Inr scheduled \<Rightarrow>
            (let c' = c1\<lparr>next_review := Some scheduled,
                   history := Some ((case history c of None \<Rightarrow> [] | Some h \<Rightarrow> h) @
                     [\<lparr>time = isoformat lib utcnow, quality = q, old_strength = strength c,
                       old_box = box c, new_strength = ns, new_box = nb\<rparr>])\<rparr>
             in (Inr c', c')))"
  using quality_cases [OF assms]
  by (elim disjE)
    (simp_all add: update_card_on_review_def mult_table BOX_COUNT_def Let_def
      split: option.splits sum.splits)

lemma update_last_review:
  assumes "0 \<le> q" "q \<le> 5"
  shows "last_review (snd (update_card_on_review lib utcnow c q)) = Some (isoformat lib utcnow)"
  by (simp add: update_accepted [OF assms] Let_def split: sum.splits)

lemma update_returns:
  assumes "0 \<le> q" "q \<le> 5" "0 < strength c" "strength c \<le> 3 / 2"
    and "0 \<le> utcnow" "utcnow + 43200000000 < DATETIME_END"
  shows "\<exists>c'. update_card_on_review lib utcnow c q = (Inr c', c')"
proof -
  define ns where "ns = max (1 / 10) (strength c * the (QUALITY_MULTIPLIER q)) +
    (if q = 5 then 2 / 10 else 0)"
  have "0 < ns" by (auto simp: ns_def max_def)
  moreover have "ns \<le> 5 / 2"
    using quality_cases [OF assms(1,2)] assms(3,4)
    by (elim disjE) (simp_all add: ns_def mult_table)
  ultimately have "schedule_next_review lib ns utcnow =
      Inr (isoformat lib (utcnow + 43200000000))"
    using assms(5,6) by (intro schedule_next_review_small)
  then show ?thesis
    by (simp add: update_accepted [OF assms(1,2)] Let_def ns_def [symmetric])
qed

lemma update_overflow:
  assumes "0 \<le> q" "q \<le> 5" "1000000000 \<le> strength c" "0 \<le> utcnow"
  shows "update_card_on_review lib utcnow c q =
     (Inl OverflowError,
      c\<lparr>strength := max (1 / 10) (strength c * the (QUALITY_MULTIPLIER q)) +
             (if q = 5 then 2 / 10 else 0),
        box := (if 4 \<le> q then min 5 (box c + 1) else if q \<le> 2 then 1 else box c),
        last_review := Some (isoformat lib utcnow)\<rparr>)"
proof -
  define ns where "ns = max (1 / 10) (strength c * the (QUALITY_MULTIPLIER q)) +
    (if q = 5 then 2 / 10 else 0)"
  have "100000000 \<le> ns"
    using quality_cases [OF assms(1,2)] assms(3)
    by (elim disjE) (auto simp: ns_def mult_table max_def)
  then have "schedule_next_dt ns utcnow = Inl OverflowError"
    using assms(4) by (rule schedule_large)
  then have "schedule_next_review lib ns utcnow = Inl OverflowError"
    by (simp add: schedule_next_review_def)
  then show ?thesis
    by (simp add: update_accepted [OF assms(1,2)] Let_def ns_def [symmetric])
qed

lemma example_first_review:
  "update_card_on_review example_lib 63839664000000000 example_card 0 =
     (let c' = \<lparr>strength = 45 / 100, box = 1,
                last_review = Some ''2024-01-01T00:00:00'',
                next_review = Some ''2024-01-01T12:00:00'',
                history = Some [\<lparr>time = ''2024-01-01T00:00:00'', quality = 0,
                  old_strength = 1, old_box = 1, new_strength = 45 / 100, new_box = 1\<rparr>]\<rparr>
      in (Inr c', c'))"
proof -
  have s: "schedule_next_review example_lib (9 / 20) 63839664000000000 =
      Inr (isoformat example_lib (63839664000000000 + 43200000000))"
    by (rule schedule_next_review_small) (simp_all add: DATETIME_END_def)
  show ?thesis
    by (simp add: update_accepted mult_table Let_def example_card_def s)
      (simp add: example_lib_def)
qed

subsection \<open>Strength update\<close>

text \<open>
  Claim C1. For a card with strength \<open>s > 0\<close> and a quality \<open>q\<close> in \<open>[0, 5]\<close>, the call
  leaves the card with strength \<open>max(0.1, s * m(q))\<close>, where \<open>m\<close> is the table
  5: 1.30, 4: 1.15, 3: 1.05, 2: 0.85, 1: 0.60, 0: 0.45, plus 0.2 when \<open>q\<close> is 5, the bonus
  being added after the floor.
\<close>

theorem strength_update:
  assumes "0 < strength c" "0 \<le> q" "q \<le> 5"
  shows "strength (snd (update_card_on_review lib utcnow c q)) =
     max (1 / 10)
       (strength c *
         (if q = 5 then 130 / 100 else if q = 4 then 115 / 100 else if q = 3 then 105 / 100
          else if q = 2 then 85 / 100 else if q = 1 then 60 / 100 else 45 / 100))
     + (if q = 5 then 2 / 10 else 0)"
  using quality_cases [OF assms(2,3)]
  by (elim disjE) (simp_all add: update_accepted mult_table Let_def split: sum.splits)

theorem strength_update_witness:
  "0 < strength example_card \<and> (0::int) \<le> 5 \<and> (5::int) \<le> 5 \<and>
   strength (snd (update_card_on_review example_lib 0 example_card 5)) = 15 / 10"
  using strength_update [of example_card 5 example_lib 0] by (simp add: example_card_def)

subsection \<open>Box transition\<close>

text \<open>
  Claim C2. For a card with box \<open>b\<close> and a quality \<open>q\<close> in \<open>[0, 5]\<close>, the call leaves the
  card with box \<open>min(5, b + 1)\<close> when \<open>q \<ge> 4\<close>, with box 1 when \<open>q \<le> 2\<close>, and with box \<open>b\<close>
  when \<open>q = 3\<close>; the new box is the same whatever the strength of the card is.
\<close>

theorem box_transition:
  assumes "0 \<le> q" "q \<le> 5"
  shows "(4 \<le> q \<longrightarrow> box (snd (update_card_on_review lib utcnow c q)) = min 5 (box c + 1)) \<and>
         (q \<le> 2 \<longrightarrow> box (snd (update_card_on_review lib utcnow c q)) = 1) \<and>
         (q = 3 \<longrightarrow> box (snd (update_card_on_review lib utcnow c q)) = box c) \<and>
         box (snd (update_card_on_review lib utcnow (c\<lparr>strength := s'\<rparr>) q)) =
           box (snd (update_card_on_review lib utcnow c q))"
  using assms by (simp add: update_accepted Let_def split: sum.splits)

theorem box_transition_witness:
  "(0::int) \<le> 4 \<and> (4::int) \<le> 5 \<and> (4::int) \<le> 4 \<and>
   box (snd (update_card_on_review example_lib 0 example_card 4)) = 2 \<and>
   (0::int) \<le> 1 \<and> (1::int) \<le> 5 \<and> (1::int) \<le> 2 \<and>
   box (snd (update_card_on_review example_lib 0 (example_card\<lparr>box := 4\<rparr>) 1)) = 1 \<and>
   (0::int) \<le> 3 \<and> (3::int) \<le> 5 \<and>
   box (snd (update_card_on_review example_lib 0 (example_card\<lparr>box := 4\<rparr>) 3)) = 4"
  using box_transition [of 4 example_lib 0 example_card 7]
    box_transition [of 1 example_lib 0 "example_card\<lparr>box := 4\<rparr>" 7]
    box_transition [of 3 example_lib 0 "example_card\<lparr>box := 4\<rparr>" 7]
  by (simp add: example_card_def)

subsection \<open>Rejected quality\<close>

text \<open>
  Claim C3. The call raises the \<^verbatim>\<open>ValueError\<close> of the quality check if and only if the
  quality is outside \<open>[0, 5]\<close>; the dictionary is then as it was before the call:
  strength, box, last_review, next_review and history (no entry appended) are untouched.
\<close>

theorem invalid_quality_rejected:
  "(fst (update_card_on_review lib utcnow c q) = Inl ValueError \<longleftrightarrow> q < 0 \<or> 5 < q) \<and>
   (q < 0 \<or> 5 < q \<longrightarrow> snd (update_card_on_review lib utcnow c q) = c)"
proof (cases "q < 0 \<or> 5 < q")
  case True
  then show ?thesis by (simp add: update_rejected)
next
  case False
  then have q: "0 \<le> q" "q \<le> 5" by simp_all
  have "fst (update_card_on_review lib utcnow c q) \<noteq> Inl ValueError"
    by (auto simp: update_accepted [OF q] Let_def split: sum.splits dest: schedule_error)
  then show ?thesis using False by simp
qed

theorem invalid_quality_rejected_witness:
  "((6::int) < 0 \<or> (5::int) < 6) \<and>
   update_card_on_review example_lib 0 example_card 6 = (Inl ValueError, example_card) \<and>
   ((-1::int) < 0 \<or> (5::int) < -1) \<and>
   update_card_on_review example_lib 0 example_card (-1) = (Inl ValueError, example_card) \<and>
   history (snd (update_card_on_review example_lib 0 example_card 6)) = None"
  using invalid_quality_rejected [of example_lib 0 example_card 6]
    invalid_quality_rejected [of example_lib 0 example_card "-1"]
  by (auto simp: prod_eq_iff example_card_def)

subsection \<open>Retention\<close>

text \<open>
  Claim C4 says that \<^verbatim>\<open>calculate_retention\<close> returns 0 when last_review is absent and
  \<open>exp(- t_days / max(1e-6, strength))\<close> otherwise. With a last_review 1096 days after the
  clock reading and strength 1, that value is beyond the floats and the call raises
  \<^verbatim>\<open>OverflowError\<close>.
\<close>

theorem retention_overflow_counterexample:
  "''2027-01-01T00:00:00'' \<noteq> [] \<and>
   fromisoformat example_lib ''2027-01-01T00:00:00'' = Naive 63934358400000000 \<and>
   calculate_retention example_lib 63839664000000000 1 (Some ''2027-01-01T00:00:00'') =
     Inl OverflowError"
  by (simp add: calculate_retention_def example_lib_def total_seconds_def math_exp_overflow)

text \<open>
  Claim C4, amended. \<^verbatim>\<open>calculate_retention\<close> returns exactly 0 when last_review is
  absent. When last_review is the text of a timestamp \<open>last_dt\<close>, with \<open>t_days\<close> the time
  from \<open>last_dt\<close> to the clock reading of the call in days: it returns
  \<open>exp(- t_days / max(1e-6, strength))\<close> if that value is not above the largest float, and
  raises \<^verbatim>\<open>OverflowError\<close> if it is; it returns the value whenever \<open>last_dt\<close> is not later
  than the clock reading.
\<close>

theorem retention_formula:
  "calculate_retention lib utcnow s None = Inr 0 \<and>
   (x \<noteq> [] \<and> fromisoformat lib x = Naive last_dt \<longrightarrow>
      calculate_retention lib utcnow s (Some x) =
        (if exp (- (of_int (utcnow - last_dt) / 10 ^ 6 / 86400) / max (1 / 10 ^ 6) s) \<le> DBL_MAX
         then Inr (exp (- (of_int (utcnow - last_dt) / 10 ^ 6 / 86400) / max (1 / 10 ^ 6) s))
         else Inl OverflowError)) \<and>
   (x \<noteq> [] \<and> fromisoformat lib x = Naive last_dt \<and> last_dt \<le> utcnow \<longrightarrow>
      calculate_retention lib utcnow s (Some x) =
        Inr (exp (- (of_int (utcnow - last_dt) / 10 ^ 6 / 86400) / max (1 / 10 ^ 6) s)))"
proof -
  have "math_exp (- (of_int (utcnow - last_dt) / 10 ^ 6 / 86400) / max (1 / 10 ^ 6) s) =
      Inr (exp (- (of_int (utcnow - last_dt) / 10 ^ 6 / 86400) / max (1 / 10 ^ 6) s))"
    if "last_dt \<le> utcnow"
  proof -
    have "0 < max (1 / 10 ^ 6) s" by (simp add: max_def)
    moreover have "(0::real) \<le> of_int (utcnow - last_dt) / 10 ^ 6 / 86400" using that by simp
    ultimately have "- (of_int (utcnow - last_dt) / 10 ^ 6 / 86400) / max (1 / 10 ^ 6) s \<le> 0"
      by (simp add: divide_le_0_iff)
    then show ?thesis by (intro math_exp_small) simp
  qed
  then show ?thesis
    by (auto simp: calculate_retention_def total_seconds_def math_exp_def)
qed

theorem retention_formula_witness:
  "''2024-01-01T00:00:00'' \<noteq> [] \<and>
   fromisoformat example_lib ''2024-01-01T00:00:00'' = Naive 63839664000000000 \<and>
   (63839664000000000::int) \<le> 63839750400000000 \<and>
   calculate_retention example_lib 63839750400000000 1 (Some ''2024-01-01T00:00:00'') =
     Inr (exp (- 1)) \<and>
   calculate_retention example_lib 63839750400000000 1 None = Inr 0"
proof -
  have p: "fromisoformat example_lib ''2024-01-01T00:00:00'' = Naive 63839664000000000"
    by (simp add: example_lib_def)
  have "calculate_retention example_lib 63839750400000000 1 (Some ''2024-01-01T00:00:00'') =
      Inr (exp (- (of_int (63839750400000000 - 63839664000000000) / 10 ^ 6 / 86400) /
        max (1 / 10 ^ 6) 1))"
  proof -
    have "''2024-01-01T00:00:00'' \<noteq> [] \<and>
        fromisoformat example_lib ''2024-01-01T00:00:00'' = Naive 63839664000000000 \<and>
        (63839664000000000::int) \<le> 63839750400000000"
      using p by simp
    then show ?thesis
      by (rule retention_formula [THEN conjunct2, THEN conjunct2, THEN mp])
  qed
  moreover have "calculate_retention example_lib 63839750400000000 1 None = Inr 0"
    using retention_formula [of example_lib 63839750400000000 1] by simp
  ultimately show ?thesis using p by simp
qed

text \<open>
  Claim C10. With the empty string as last_review the function returns exactly 0, as it
  does for an absent last_review, whatever the strength is; the conversion from text is
  not consulted, since the result is the same for every \<open>lib\<close>.
\<close>

theorem empty_last_review:
  "calculate_retention lib utcnow s (Some []) = Inr 0 \<and>
   calculate_retention lib utcnow s (Some []) = calculate_retention lib utcnow s None"
  by (simp add: calculate_retention_def)

text \<open>
  Claim C8 says that the value returned lies in \<open>[0, 1]\<close> for every strength \<open>> 0\<close> and
  every last_review. A last_review one day later than the clock reading, at strength 1,
  gives \<open>exp 1\<close>, which is above 1.
\<close>

theorem retention_above_one_counterexample:
  "0 < (1::real) \<and>
   calculate_retention example_lib 63839664000000000 1 (Some ''2024-01-02T00:00:00'') =
     Inr (exp 1) \<and>
   \<not> exp 1 \<le> (1::real)"
  by (simp add: calculate_retention_def example_lib_def total_seconds_def math_exp_small)

text \<open>
  Claim C8, amended. For every strength \<open>> 0\<close> and every last_review that is absent,
  empty, or a timestamp not later than the clock reading of the call, the function
  returns a value and that value lies in \<open>[0, 1]\<close>.
\<close>

theorem retention_in_unit_interval:
  assumes "0 < s"
    and "lr = None \<or> lr = Some [] \<or>
         (\<exists>x last_dt. lr = Some x \<and> fromisoformat lib x = Naive last_dt \<and> last_dt \<le> utcnow)"
  shows "\<exists>r. calculate_retention lib utcnow s lr = Inr r \<and> 0 \<le> r \<and> r \<le> 1"
proof (cases "lr = None \<or> lr = Some []")
  case True
  then show ?thesis by (auto simp: calculate_retention_def)
next
  case False
  with assms(2) obtain x last_dt where x: "lr = Some x" "x \<noteq> []"
    and p: "fromisoformat lib x = Naive last_dt" and le: "last_dt \<le> utcnow"
    by auto
  have "0 < max (1 / 10 ^ 6) s" by (simp add: max_def)
  moreover have "(0::real) \<le> of_int (utcnow - last_dt) / 10 ^ 6 / 86400" using le by simp
  ultimately have neg: "- (of_int (utcnow - last_dt) / 10 ^ 6 / 86400) / max (1 / 10 ^ 6) s \<le> 0"
    by (simp add: divide_le_0_iff)
  then have "math_exp (- (of_int (utcnow - last_dt) / 10 ^ 6 / 86400) / max (1 / 10 ^ 6) s) =
      Inr (exp (- (of_int (utcnow - last_dt) / 10 ^ 6 / 86400) / max (1 / 10 ^ 6) s))"
    by (intro math_exp_small) simp
  then have r: "calculate_retention lib utcnow s lr =
      Inr (exp (- (of_int (utcnow - last_dt) / 10 ^ 6 / 86400) / max (1 / 10 ^ 6) s))"
    using x p by (simp add: calculate_retention_def total_seconds_def)
  show ?thesis unfolding r using neg by simp
qed

theorem retention_in_unit_interval_witness:
  "0 < (1::real) \<and>
   fromisoformat example_lib ''2024-01-01T00:00:00'' = Naive 63839664000000000 \<and>
   (63839664000000000::int) \<le> 63839750400000000 \<and>
   calculate_retention example_lib 63839750400000000 1 (Some ''2024-01-01T00:00:00'') =
     Inr (exp (- 1)) \<and>
   0 \<le> exp (- 1 :: real) \<and> exp (- 1 :: real) \<le> 1"
proof -
  have p: "fromisoformat example_lib ''2024-01-01T00:00:00'' = Naive 63839664000000000"
    by (simp add: example_lib_def)
  have a: "calculate_retention example_lib 63839750400000000 1 (Some ''2024-01-01T00:00:00'') =
      Inr (exp (- 1))"
    by (simp add: calculate_retention_def example_lib_def total_seconds_def math_exp_small)
  have "\<exists>r. calculate_retention example_lib 63839750400000000 1 (Some ''2024-01-01T00:00:00'') =
      Inr r \<and> 0 \<le> r \<and> r \<le> 1"
    using p by (intro retention_in_unit_interval) auto
  with a p show ?thesis by simp
qed

subsection \<open>Scheduling\<close>

text \<open>
  Claim C5 says that for every strength \<open>> 0\<close> and every \<open>now\<close> the function returns
  \<open>now\<close> plus \<open>max(0.5, - strength * ln 0.85)\<close> days. At strength \<open>10^8\<close> and
  2024-01-01T00:00:00 that date is past the year 9999, and the call raises
  \<^verbatim>\<open>OverflowError\<close>.
\<close>

theorem schedule_overflow_counterexample:
  "0 < (100000000::real) \<and>
   schedule_next_review example_lib 100000000 63839664000000000 = Inl OverflowError"
  by (simp add: schedule_next_review_def schedule_large)

text \<open>
  Claim C5, amended. For every strength \<open>> 0\<close> and every \<open>now\<close>, let \<open>td\<close> be
  \<open>max(0.5, - strength * ln 0.85)\<close> days, rounded to the nearest microsecond (a tie to the
  even one). \<^verbatim>\<open>schedule_next_review\<close> returns (the text of) \<open>now + td\<close> when \<open>td\<close> has at most
  999999999 days and \<open>now + td\<close> is a date of the years 1 to 9999, and raises
  \<^verbatim>\<open>OverflowError\<close> otherwise. \<open>td\<close> is at least \<open>MIN_INTERVAL_DAYS = 0.5\<close> days
  (43200000000 microseconds), and exactly that when and only when
  \<open>- strength * ln 0.85\<close> is at most 0.5 days and half a microsecond.
\<close>

theorem schedule_interval:
  assumes "0 < s"
    and "td = round_half_even (max (5 / 10) (- s * ln (85 / 100)) * (86400 * 10 ^ 6))"
  shows "schedule_next_dt s now =
           (if td div (86400 * 10 ^ 6) \<le> 999999999 \<and> 0 \<le> now + td \<and> now + td < DATETIME_END
            then Inr (now + td) else Inl OverflowError) \<and>
         schedule_next_review lib s now =
           (if td div (86400 * 10 ^ 6) \<le> 999999999 \<and> 0 \<le> now + td \<and> now + td < DATETIME_END
            then Inr (isoformat lib (now + td)) else Inl OverflowError) \<and>
         43200000000 \<le> td \<and>
         (td = 43200000000 \<longleftrightarrow> - s * ln (85 / 100) \<le> 5 / 10 + 1 / (2 * (86400 * 10 ^ 6)))"
proof -
  define y where "y = max (5 / 10) (- s * ln (85 / 100))"
  have td: "td = round_half_even (y * (86400 * 10 ^ 6))" using assms(2) by (simp add: y_def)
  have dt: "schedule_next_dt s now =
      (if td div (86400 * 10 ^ 6) \<le> 999999999 \<and> 0 \<le> now + td \<and> now + td < DATETIME_END
       then Inr (now + td) else Inl OverflowError)"
    unfolding schedule_next_dt_eq assms(2) by (simp add: Let_def)
  have ge: "of_int 43200000000 \<le> y * (86400 * 10 ^ 6)"
  proof -
    have "(5 / 10 :: real) \<le> y" by (simp add: y_def)
    then have "(5 / 10) * (86400 * 10 ^ 6) \<le> y * (86400 * 10 ^ 6)"
      by (intro mult_right_mono) simp_all
    then show ?thesis by simp
  qed
  have lo: "43200000000 \<le> td" unfolding td using ge by (rule round_half_even_ge)
  have "td = 43200000000 \<longleftrightarrow> y * (86400 * 10 ^ 6) \<le> of_int 43200000000 + 1 / 2"
    unfolding td using ge by (rule round_half_even_eq_iff) simp
  also have "\<dots> \<longleftrightarrow> y \<le> 5 / 10 + 1 / (2 * (86400 * 10 ^ 6))"
    by (simp add: field_simps)
  also have "\<dots> \<longleftrightarrow> - s * ln (85 / 100) \<le> 5 / 10 + 1 / (2 * (86400 * 10 ^ 6))"
  proof -
    have "(5 / 10 :: real) \<le> 5 / 10 + 1 / (2 * (86400 * 10 ^ 6))" by simp
    then show ?thesis unfolding y_def max.bounded_iff by blast
  qed
  finally have eq: "td = 43200000000 \<longleftrightarrow>
      - s * ln (85 / 100) \<le> 5 / 10 + 1 / (2 * (86400 * 10 ^ 6))" .
  show ?thesis using dt lo eq by (simp add: schedule_next_review_def)
qed

theorem schedule_interval_witness:
  "0 < (1::real) \<and>
   (43200000000::int) =
     round_half_even (max (5 / 10) (- 1 * ln (85 / 100)) * (86400 * 10 ^ 6)) \<and>
   schedule_next_dt 1 63839664000000000 = Inr 63839707200000000 \<and>
   schedule_next_review example_lib 1 63839664000000000 = Inr ''2024-01-01T12:00:00''"
proof -
  have "- ln (85 / 100 :: real) \<le> 5 / 10" using ln_target_bounds(1) by simp
  then have "max (5 / 10) (- 1 * ln (85 / 100 :: real)) = 5 / 10" by (simp add: max_def)
  then have td: "(43200000000::int) =
      round_half_even (max (5 / 10) (- 1 * ln (85 / 100)) * (86400 * 10 ^ 6))"
    using round_half_even_of_int [of 43200000000] by simp
  from schedule_interval [OF _ td, of 63839664000000000 example_lib] td
  show ?thesis by (simp add: DATETIME_END_def example_lib_def)
qed

subsection \<open>Bookkeeping of a successful review\<close>

text \<open>
  Claim C7. When the call succeeds, it returns the dictionary it has updated. With the
  one clock reading of the call as \<open>now\<close>: last_review is \<open>now\<close>, next_review is what
  \<^verbatim>\<open>schedule_next_review\<close> returns for the new strength and \<open>now\<close>, and the history is the
  old history (empty when the dictionary had none) followed by one entry with time
  \<open>now\<close>, the quality, the old strength and box and the new strength and box; the
  history is one entry longer than before.
\<close>

theorem review_bookkeeping:
  assumes "update_card_on_review lib utcnow c q = (Inr r, c')"
  shows "r = c' \<and>
         last_review c' = Some (isoformat lib utcnow) \<and>
         (\<exists>scheduled. schedule_next_review lib (strength c') utcnow = Inr scheduled \<and>
            next_review c' = Some scheduled) \<and>
         history c' =
           Some ((case history c of None \<Rightarrow> [] | Some h \<Rightarrow> h) @
             [\<lparr>time = isoformat lib utcnow, quality = q,
               old_strength = strength c, old_box = box c,
               new_strength = strength c', new_box = box c'\<rparr>]) \<and>
         length (the (history c')) =
           length (case history c of None \<Rightarrow> [] | Some h \<Rightarrow> h) + 1"
proof -
  have q: "0 \<le> q" "q \<le> 5"
    using assms by (auto simp: update_card_on_review_def split: if_splits)
  show ?thesis
    using assms by (auto simp: update_accepted [OF q] Let_def split: sum.splits)
qed

theorem review_bookkeeping_witness:
  "update_card_on_review example_lib 63839664000000000 example_card 0 =
     (Inr \<lparr>strength = 45 / 100, box = 1,
           last_review = Some ''2024-01-01T00:00:00'',
           next_review = Some ''2024-01-01T12:00:00'',
           history = Some [\<lparr>time = ''2024-01-01T00:00:00'', quality = 0,
             old_strength = 1, old_box = 1, new_strength = 45 / 100, new_box = 1\<rparr>]\<rparr>,
      \<lparr>strength = 45 / 100, box = 1,
           last_review = Some ''2024-01-01T00:00:00'',
           next_review = Some ''2024-01-01T12:00:00'',
           history = Some [\<lparr>time = ''2024-01-01T00:00:00'', quality = 0,
             old_strength = 1, old_box = 1, new_strength = 45 / 100, new_box = 1\<rparr>]\<rparr>) \<and>
   schedule_next_review example_lib (45 / 100) 63839664000000000 =
     Inr ''2024-01-01T12:00:00'' \<and>
   length (the (history (snd (update_card_on_review example_lib 63839664000000000
     example_card 0)))) = 1"
proof -
  have u: "update_card_on_review example_lib 63839664000000000 example_card 0 =
     (Inr \<lparr>strength = 45 / 100, box = 1,
           last_review = Some ''2024-01-01T00:00:00'',
           next_review = Some ''2024-01-01T12:00:00'',
           history = Some [\<lparr>time = ''2024-01-01T00:00:00'', quality = 0,
             old_strength = 1, old_box = 1, new_strength = 45 / 100, new_box = 1\<rparr>]\<rparr>,
      \<lparr>strength = 45 / 100, box = 1,
           last_review = Some ''2024-01-01T00:00:00'',
           next_review = Some ''2024-01-01T12:00:00'',
           history = Some [\<lparr>time = ''2024-01-01T00:00:00'', quality = 0,
             old_strength = 1, old_box = 1, new_strength = 45 / 100, new_box = 1\<rparr>]\<rparr>)"
    using example_first_review by (simp add: Let_def)
  from review_bookkeeping [OF u] u show ?thesis by (auto simp: example_card_def)
qed

subsection \<open>Invariants of a series of reviews\<close>

lemma update_invariant:
  assumes "update_card_on_review lib utcnow c q = (Inr c', st)" "1 \<le> box c" "box c \<le> 5"
  shows "1 \<le> box c' \<and> box c' \<le> 5 \<and> 1 / 10 \<le> strength c'"
proof -
  have ok: "0 \<le> q" "q \<le> 5"
    using assms(1) by (auto simp: update_card_on_review_def split: if_splits)
  show ?thesis using assms by (auto simp: update_accepted [OF ok] Let_def split: sum.splits)
qed

lemma review_trace_invariant:
  "1 \<le> box c \<Longrightarrow> box c \<le> 5 \<Longrightarrow> c' \<in> set (review_trace lib c rs) \<Longrightarrow>
   1 \<le> box c' \<and> box c' \<le> 5 \<and> 1 / 10 \<le> strength c'"
proof (induction rs arbitrary: c)
  case Nil
  then show ?case by simp
next
  case (Cons r rs)
  obtain utcnow q where r: "r = (utcnow, q)" by (cases r)
  obtain res st where u: "update_card_on_review lib utcnow c q = (res, st)"
    by (cases "update_card_on_review lib utcnow c q")
  show ?case
  proof (cases res)
    case (Inl e)
    with Cons.prems r u show ?thesis by simp
  next
    case (Inr c1)
    with u have u1: "update_card_on_review lib utcnow c q = (Inr c1, st)" by simp
    from update_invariant [OF u1 Cons.prems(1,2)]
    have inv: "1 \<le> box c1 \<and> box c1 \<le> 5 \<and> 1 / 10 \<le> strength c1" .
    from Cons.prems(3) r u1 have "c' = c1 \<or> c' \<in> set (review_trace lib c1 rs)" by simp
    then show ?thesis using inv Cons.IH [of c1] by blast
  qed
qed

lemma example_trace_length:
  "length (review_trace example_lib example_card example_reviews) = 2"
proof -
  define c1 :: card_data where "c1 = \<lparr>strength = 45 / 100, box = 1,
      last_review = Some ''2024-01-01T00:00:00'',
      next_review = Some ''2024-01-01T12:00:00'',
      history = Some [\<lparr>time = ''2024-01-01T00:00:00'', quality = 0,
        old_strength = 1, old_box = 1, new_strength = 45 / 100, new_box = 1\<rparr>]\<rparr>"
  have u1: "update_card_on_review example_lib 63839664000000000 example_card 0 = (Inr c1, c1)"
    using example_first_review by (simp add: Let_def c1_def)
  have "\<exists>c2. update_card_on_review example_lib 63839750400000000 c1 5 = (Inr c2, c2)"
    by (rule update_returns) (simp_all add: c1_def DATETIME_END_def)
  then obtain c2 where
    u2: "update_card_on_review example_lib 63839750400000000 c1 5 = (Inr c2, c2)" ..
  show ?thesis by (simp add: example_reviews_def u1 u2)
qed

text \<open>
  Claim C6. In a series of successful reviews from a card with box in \<open>[1, 5]\<close> and
  strength \<open>> 0\<close>, whatever the qualities are, the card after every call has its box in
  \<open>[1, 5]\<close> and a strength of at least 0.1.
\<close>

theorem review_invariants:
  assumes "1 \<le> box c" "box c \<le> 5" "0 < strength c"
    and "c' \<in> set (review_trace lib c rs)"
  shows "1 \<le> box c' \<and> box c' \<le> 5 \<and> 1 / 10 \<le> strength c'"
  using assms(1,2,4) by (rule review_trace_invariant)

theorem review_invariants_witness:
  "1 \<le> box example_card \<and> box example_card \<le> 5 \<and> 0 < strength example_card \<and>
   length (review_trace example_lib example_card example_reviews) = 2 \<and>
   list_all (\<lambda>c'. 1 \<le> box c' \<and> box c' \<le> 5 \<and> 1 / 10 \<le> strength c')
     (review_trace example_lib example_card example_reviews)"
proof -
  have c: "1 \<le> box example_card" "box example_card \<le> 5" "0 < strength example_card"
    by (simp_all add: example_card_def)
  have "\<forall>c' \<in> set (review_trace example_lib example_card example_reviews).
      1 \<le> box c' \<and> box c' \<le> 5 \<and> 1 / 10 \<le> strength c'"
    using review_invariants [OF c] by blast
  with c example_trace_length show ?thesis by (simp add: list_all_iff)
qed

subsection \<open>The clock\<close>

text \<open>
  Claim C9 says that each of the three functions takes the current time as an argument
  and that two runs with the same arguments at different times give the same result.
  \<^verbatim>\<open>calculate_retention\<close> and \<^verbatim>\<open>update_card_on_review\<close> call \<^verbatim>\<open>datetime.utcnow()\<close>
  themselves: with the same arguments, a run at 2024-01-01T00:00:00 and a run one day
  later differ.
\<close>

theorem clock_dependence_counterexample:
  "calculate_retention example_lib 63839664000000000 1 (Some ''2024-01-01T00:00:00'') \<noteq>
     calculate_retention example_lib 63839750400000000 1 (Some ''2024-01-01T00:00:00'') \<and>
   update_card_on_review example_lib 63839664000000000 example_card 3 \<noteq>
     update_card_on_review example_lib 63839750400000000 example_card 3"
proof -
  have "last_review (snd (update_card_on_review example_lib 63839664000000000 example_card 3)) \<noteq>
      last_review (snd (update_card_on_review example_lib 63839750400000000 example_card 3))"
    by (simp add: update_last_review example_lib_def)
  then have "update_card_on_review example_lib 63839664000000000 example_card 3 \<noteq>
      update_card_on_review example_lib 63839750400000000 example_card 3"
    by auto
  then show ?thesis
    by (simp add: calculate_retention_def example_lib_def total_seconds_def math_exp_small)
qed

text \<open>
  Claim C9, amended. Of the three functions only \<^verbatim>\<open>schedule_next_review\<close> takes the
  current time as an argument (it reads no clock). The other two read the clock once in
  a call, and two runs with the same arguments at different times agree on what does not
  involve the reading: the retention of a card whose last_review is absent or empty,
  and, for a review, whether the quality is rejected, the new strength and the new box
  written to the card; when both runs return, they also agree on the length of the
  history.
\<close>

theorem clock_independent_parts:
  "calculate_retention lib t1 s None = calculate_retention lib t2 s None \<and>
   calculate_retention lib t1 s (Some []) = calculate_retention lib t2 s (Some []) \<and>
   (fst (update_card_on_review lib t1 c q) = Inl ValueError \<longleftrightarrow>
      fst (update_card_on_review lib t2 c q) = Inl ValueError) \<and>
   strength (snd (update_card_on_review lib t1 c q)) =
     strength (snd (update_card_on_review lib t2 c q)) \<and>
   box (snd (update_card_on_review lib t1 c q)) = box (snd (update_card_on_review lib t2 c q)) \<and>
   (\<not> isl (fst (update_card_on_review lib t1 c q)) \<and>
    \<not> isl (fst (update_card_on_review lib t2 c q)) \<longrightarrow>
      map_option length (history (snd (update_card_on_review lib t1 c q))) =
        map_option length (history (snd (update_card_on_review lib t2 c q))))"
proof (cases "q < 0 \<or> 5 < q")
  case True
  then show ?thesis by (simp add: update_rejected calculate_retention_def)
next
  case False
  then have q: "0 \<le> q" "q \<le> 5" by simp_all
  have "fst (update_card_on_review lib t c q) \<noteq> Inl ValueError" for t
    by (auto simp: update_accepted [OF q] Let_def split: sum.splits dest: schedule_error)
  then show ?thesis
    by (auto simp: update_accepted [OF q] Let_def calculate_retention_def split: sum.splits)
qed

theorem clock_independent_parts_witness:
  "\<not> isl (fst (update_card_on_review example_lib 63839664000000000 example_card 3)) \<and>
   \<not> isl (fst (update_card_on_review example_lib 63839750400000000 example_card 3)) \<and>
   map_option length
     (history (snd (update_card_on_review example_lib 63839664000000000 example_card 3))) =
   map_option length
     (history (snd (update_card_on_review example_lib 63839750400000000 example_card 3)))"
proof -
  have "\<exists>c'. update_card_on_review example_lib 63839664000000000 example_card 3 = (Inr c', c')"
    by (rule update_returns) (simp_all add: example_card_def DATETIME_END_def)
  moreover
  have "\<exists>c'. update_card_on_review example_lib 63839750400000000 example_card 3 = (Inr c', c')"
    by (rule update_returns) (simp_all add: example_card_def DATETIME_END_def)
  ultimately have r:
    "\<not> isl (fst (update_card_on_review example_lib 63839664000000000 example_card 3)) \<and>
     \<not> isl (fst (update_card_on_review example_lib 63839750400000000 example_card 3))"
    by auto
  with clock_independent_parts
    [of example_lib 63839664000000000 1 63839750400000000 example_card 3]
  show ?thesis by blast
qed

end
